theory Spec2Isabelle
  imports Main "HOL-Library.Sublist"
begin

section \<open>JavaScript strings\<close>

text \<open>
  A JavaScript string is modelled as a \<open>string\<close>; a \<open>char\<close> stands for a code unit
  below 256 (ASCII and Latin-1). The built-in string methods used by \<^verbatim>\<open>index.js\<close>
  are written out for that range.
\<close>

definition isWhiteSpace :: "char \<Rightarrow> bool" where
  \<comment> \<open>the white space and line terminators that \<^verbatim>\<open>trim()\<close> strips: TAB, LF, VT, FF, CR, SP, NBSP\<close>
  "isWhiteSpace c = (of_char c \<in> {9, 10, 11, 12, 13, 32, 160 :: nat})"

definition trim :: "string \<Rightarrow> string" where
  "trim s = rev (dropWhile isWhiteSpace (rev (dropWhile isWhiteSpace s)))"

definition isUpperCase :: "char \<Rightarrow> bool" where
  \<comment> \<open>A..Z and the Latin-1 capitals (all of C0..DE but the multiplication sign D7)\<close>
  "isUpperCase c = (let n = of_char c :: nat in
     (65 \<le> n \<and> n \<le> 90) \<or> (192 \<le> n \<and> n \<le> 222 \<and> n \<noteq> 215))"

definition isLowerCase :: "char \<Rightarrow> bool" where
  \<comment> \<open>a..z and the Latin-1 small letters whose capital is a single Latin-1 character\<close>
  "isLowerCase c = (let n = of_char c :: nat in
     (97 \<le> n \<and> n \<le> 122) \<or> (224 \<le> n \<and> n \<le> 254 \<and> n \<noteq> 247))"

definition toLowerChar :: "char \<Rightarrow> char" where
  \<comment> \<open>a capital and its small letter differ by 32, that is by bit 5\<close>
  "toLowerChar c = (if isUpperCase c
     then (case c of Char b0 b1 b2 b3 b4 b5 b6 b7 \<Rightarrow> Char b0 b1 b2 b3 b4 True b6 b7)
     else c)"

definition toUpperChar :: "char \<Rightarrow> char" where
  "toUpperChar c = (if isLowerCase c
     then (case c of Char b0 b1 b2 b3 b4 b5 b6 b7 \<Rightarrow> Char b0 b1 b2 b3 b4 False b6 b7)
     else c)"

definition toLowerCase :: "string \<Rightarrow> string" where
  "toLowerCase s = map toLowerChar s"

definition toUpperCase :: "string \<Rightarrow> string" where
  \<comment> \<open>The capital of the sharp s (DF) is the two letters SS. The capitals of the micro sign
      (B5) and of the y with diaeresis (FF) are U+039C and U+0178, which are no code units below
      256: these two letters are kept as they are, and a name that holds one of them is outside
      the range of the model. The input names of \<^verbatim>\<open>index.js\<close> are ASCII literals.\<close>
  "toUpperCase s = concat (map (\<lambda>c. if c = CHR 0xDF then ''SS'' else [toUpperChar c]) s)"

definition replaceSpaces :: "string \<Rightarrow> string" where
  \<comment> \<open>\<^verbatim>\<open>s.replace(/ /g, "_")\<close>\<close>
  "replaceSpaces s = map (\<lambda>c. if c = CHR '' '' then CHR ''_'' else c) s"

definition startsWith :: "string \<Rightarrow> string \<Rightarrow> bool" where
  "startsWith s p = (take (length p) s = p)"

definition endsWith :: "string \<Rightarrow> string \<Rightarrow> bool" where
  "endsWith s p = (length p \<le> length s \<and> drop (length s - length p) s = p)"

fun split_on :: "char \<Rightarrow> string \<Rightarrow> string list" where
  \<comment> \<open>\<^verbatim>\<open>s.split(d)\<close> for a separator of one character\<close>
  "split_on d [] = [[]]"
| "split_on d (c # cs) =
     (if c = d then [] # split_on d cs
      else (case split_on d cs of [] \<Rightarrow> [[c]] | p # ps \<Rightarrow> (c # p) # ps))"

fun join :: "string \<Rightarrow> string list \<Rightarrow> string" where
  \<comment> \<open>\<^verbatim>\<open>xs.join(sep)\<close>\<close>
  "join sep [] = []"
| "join sep [x] = x"
| "join sep (x # y # ys) = x @ sep @ join sep (y # ys)"

fun decimal :: "nat \<Rightarrow> string" where
  \<comment> \<open>a number in a template literal, for the non-negative integers\<close>
  "decimal n = (if n < 10 then [''0123456789'' ! n]
                else decimal (n div 10) @ [''0123456789'' ! (n mod 10)])"

declare decimal.simps [simp del]

definition newline :: string where
  "newline = [CHR 0x0A]"

definition quote :: string where
  \<comment> \<open>the apostrophe\<close>
  "quote = [CHR 0x27]"


section \<open>The outside world and the effects of a run\<close>

text \<open>
  Every call that leaves the program is an \<open>event\<close>, recorded in order. What the outside
  world answers is a parameter: a record of functions, those of the file system, the
  network, processes and the module loader taking the events so far, so that the same
  call may be answered differently at different times. JavaScript values (parsed
  documents, loaded modules, validator instances, error objects) are of an arbitrary
  type \<open>'v\<close>. A thrown error is its message.
\<close>

record request =
  req_method :: string
  req_url :: string
  req_headers :: "(string \<times> string) list"
  req_body :: "string option"

record response =
  ok :: bool
  status :: nat
  statusText :: string
  bodyText :: string

datatype event =
    Access string                                 \<comment> \<open>\<^verbatim>\<open>fs.accessSync(path, F_OK)\<close>\<close>
  | Require string                                \<comment> \<open>\<^verbatim>\<open>require(id)\<close>\<close>
  | Mkdtemp string                                \<comment> \<open>\<^verbatim>\<open>fsp.mkdtemp(prefix)\<close>\<close>
  | ExecFile string "string list" "string option" \<comment> \<open>file, arguments, working directory\<close>
  | Fetch request                                 \<comment> \<open>\<^verbatim>\<open>fetch(url, init)\<close>\<close>
  | ReadFile string                               \<comment> \<open>\<^verbatim>\<open>fsp.readFile(path, "utf8")\<close>\<close>
  | WriteFile string string                       \<comment> \<open>\<^verbatim>\<open>fsp.writeFile(path, data)\<close>\<close>
  | Chmod string nat                              \<comment> \<open>\<^verbatim>\<open>fsp.chmod(path, mode)\<close>\<close>
  | ConsoleLog string                             \<comment> \<open>\<^verbatim>\<open>console.log(text)\<close>\<close>

type_synonym trace = "event list"

record ajv_options =
  allErrors :: bool
  strict :: bool

record 'v world =
  env :: "string \<rightharpoonup> string"                    \<comment> \<open>\<^verbatim>\<open>process.env\<close>\<close>
  os_platform :: string
  os_arch :: string
  os_tmpdir :: string
  path_join :: "string list \<Rightarrow> string"
  path_resolve :: "string \<Rightarrow> string"
  fs_access :: "trace \<Rightarrow> string \<Rightarrow> bool"     \<comment> \<open>does \<^verbatim>\<open>accessSync\<close> return (rather than throw)\<close>
  fs_mkdtemp :: "trace \<Rightarrow> string \<Rightarrow> string + string"
  fs_readFile :: "trace \<Rightarrow> string \<Rightarrow> string + string"
  fs_writeFile :: "trace \<Rightarrow> string \<Rightarrow> string \<Rightarrow> string + unit"
  fs_chmod :: "trace \<Rightarrow> string \<Rightarrow> nat \<Rightarrow> string + unit"
  exec_file :: "trace \<Rightarrow> string \<Rightarrow> string list \<Rightarrow> string option \<Rightarrow> string + string \<times> string"
                                                  \<comment> \<open>standard output and standard error\<close>
  http_fetch :: "trace \<Rightarrow> request \<Rightarrow> string + response"
  node_require :: "trace \<Rightarrow> string \<Rightarrow> string + 'v"
  JSON_parse :: "string \<Rightarrow> string + 'v"
  JSON_stringify :: "'v \<Rightarrow> string"
  yaml_load :: "'v \<Rightarrow> string \<Rightarrow> string + 'v"    \<comment> \<open>\<^verbatim>\<open>yaml.load(raw)\<close> of the module value \<open>yaml\<close>\<close>
  js_new :: "'v \<Rightarrow> ajv_options \<Rightarrow> string + 'v"  \<comment> \<open>\<^verbatim>\<open>new C(options)\<close> of the module value \<open>C\<close>\<close>
  js_call :: "'v \<Rightarrow> 'v \<Rightarrow> string + 'v"          \<comment> \<open>\<^verbatim>\<open>f(x)\<close>; the value is \<open>x\<close> as \<open>f\<close> leaves it\<close>
  ajv_compile :: "'v \<Rightarrow> 'v \<Rightarrow> string + ('v \<Rightarrow> bool \<times> 'v list)"
                                                  \<comment> \<open>\<^verbatim>\<open>ajv.compile(schema)\<close>: a function giving
                                                      the verdict and \<^verbatim>\<open>validate.errors\<close>\<close>
  ajv_errorsText :: "'v \<Rightarrow> 'v list \<Rightarrow> string \<Rightarrow> string"
                                                  \<comment> \<open>\<^verbatim>\<open>ajv.errorsText(errors, {separator})\<close>\<close>

type_synonym 'a io = "trace \<Rightarrow> (string + 'a) \<times> trace"

definition io_return :: "'a \<Rightarrow> 'a io" where
  "io_return x s = (Inr x, s)"

definition io_throw :: "string \<Rightarrow> 'a io" where
  "io_throw msg s = (Inl msg, s)"

definition io_lift :: "string + 'a \<Rightarrow> 'a io" where
  \<comment> \<open>a call without effects that returns or throws\<close>
  "io_lift r s = (r, s)"

definition io_bind :: "'a io \<Rightarrow> ('a \<Rightarrow> 'b io) \<Rightarrow> 'b io" where
  "io_bind m f s = (case m s of (Inl e, s') \<Rightarrow> (Inl e, s') | (Inr x, s') \<Rightarrow> f x s')"

definition io_catch :: "'a io \<Rightarrow> (string \<Rightarrow> 'a io) \<Rightarrow> 'a io" where
  "io_catch m h s = (case m s of (Inl e, s') \<Rightarrow> h e s' | (Inr x, s') \<Rightarrow> (Inr x, s'))"

definition perform :: "event \<Rightarrow> (trace \<Rightarrow> string + 'a) \<Rightarrow> 'a io" where
  \<comment> \<open>an outside call: the world answers from the events so far, and the call is recorded\<close>
  "perform ev answer s = (answer s, s @ [ev])"

definition fetch :: "'v world \<Rightarrow> request \<Rightarrow> response io" where
  "fetch w req = perform (Fetch req) (\<lambda>s. http_fetch w s req)"

definition fetch_get :: "'v world \<Rightarrow> string \<Rightarrow> response io" where
  \<comment> \<open>\<^verbatim>\<open>fetch(url)\<close> without an init object\<close>
  "fetch_get w u = fetch w \<lparr>req_method = ''GET'', req_url = u, req_headers = [], req_body = None\<rparr>"

definition require :: "'v world \<Rightarrow> string \<Rightarrow> 'v io" where
  "require w name = perform (Require name) (\<lambda>s. node_require w s name)"

definition mkdtemp :: "'v world \<Rightarrow> string \<Rightarrow> string io" where
  "mkdtemp w pre = perform (Mkdtemp pre) (\<lambda>s. fs_mkdtemp w s pre)"

definition execFileAsync :: "'v world \<Rightarrow> string \<Rightarrow> string list \<Rightarrow> string option \<Rightarrow> (string \<times> string) io" where
  "execFileAsync w file args cwd = perform (ExecFile file args cwd) (\<lambda>s. exec_file w s file args cwd)"

definition readFile :: "'v world \<Rightarrow> string \<Rightarrow> string io" where
  "readFile w p = perform (ReadFile p) (\<lambda>s. fs_readFile w s p)"

definition writeFile :: "'v world \<Rightarrow> string \<Rightarrow> string \<Rightarrow> unit io" where
  "writeFile w p data = perform (WriteFile p data) (\<lambda>s. fs_writeFile w s p data)"

definition chmod :: "'v world \<Rightarrow> string \<Rightarrow> nat \<Rightarrow> unit io" where
  "chmod w p mode = perform (Chmod p mode) (\<lambda>s. fs_chmod w s p mode)"

definition console_log :: "string \<Rightarrow> unit io" where
  "console_log msg = perform (ConsoleLog msg) (\<lambda>s. Inr ())"


section \<open>Configuration Reader\<close>

record input_options =
  required :: bool

definition no_options :: input_options where
  \<comment> \<open>the default \<^verbatim>\<open>options = {}\<close>: \<^verbatim>\<open>options.required\<close> is undefined, hence falsy\<close>
  "no_options = \<lparr>required = False\<rparr>"

definition input_key :: "string \<Rightarrow> string" where
  "input_key name = ''INPUT_'' @ toUpperCase (replaceSpaces name)"

definition getInput :: "'v world \<Rightarrow> string \<Rightarrow> input_options \<Rightarrow> string + string" where
  "getInput w name options =
     (let key = input_key name;
          value = env w key
      in if required options \<and> (case value of None \<Rightarrow> True | Some v \<Rightarrow> v = [] \<or> trim v = [])
         then Inl (''Missing required input: '' @ name)
         else Inr (case value of None \<Rightarrow> [] | Some v \<Rightarrow> v))"

definition parseBoolean :: "string \<Rightarrow> bool \<Rightarrow> bool" where
  "parseBoolean value defaultValue =
     (if value = [] then defaultValue
      else toLowerCase value \<in> set [''1'', ''true'', ''yes'', ''on''])"


section \<open>Module loader\<close>

definition fileExists :: "'v world \<Rightarrow> string \<Rightarrow> bool io" where
  "fileExists w filePath = perform (Access filePath) (\<lambda>s. Inr (fs_access w s filePath))"

definition ensureModule :: "'v world \<Rightarrow> string \<Rightarrow> string \<Rightarrow> 'v io" where
  "ensureModule w moduleName version =
     io_catch (require w moduleName) (\<lambda>_.
       io_bind (mkdtemp w (path_join w [os_tmpdir w, ''apim-action-''])) (\<lambda>tempDir.
       let pkg = (if version \<noteq> [] then moduleName @ ''@'' @ version else moduleName) in
       io_bind (execFileAsync w ''npm'' [''install'', ''--silent'', ''--no-fund'', ''--no-audit'', pkg]
                  (Some tempDir)) (\<lambda>_.
       let modulePath = path_join w [tempDir, ''node_modules'', moduleName] in
       require w modulePath)))"


section \<open>Tool Provisioner and Template Renderer\<close>

definition resolveYttAsset :: "'v world \<Rightarrow> string \<Rightarrow> string + string \<times> string" where
  \<comment> \<open>the result is the pair of \<^verbatim>\<open>url\<close> and \<^verbatim>\<open>fileName\<close>\<close>
  "resolveYttAsset w version =
     (let platform = os_platform w;
          arch = os_arch w
      in if platform \<noteq> ''darwin'' \<and> platform \<noteq> ''linux''
         then Inl (''Unsupported OS for ytt: '' @ platform)
         else let osName = (if platform = ''darwin'' then ''darwin'' else ''linux'')
         in if arch \<noteq> ''x64'' \<and> arch \<noteq> ''arm64''
            then Inl (''Unsupported architecture for ytt: '' @ arch)
            else let archName = (if arch = ''x64'' then ''amd64'' else ''arm64'');
                     fileName = ''ytt-'' @ osName @ ''-'' @ archName;
                     url = ''https://github.com/carvel-dev/ytt/releases/download/'' @ version
                             @ ''/'' @ fileName
                 in Inr (url, fileName))"

definition ensureYtt :: "'v world \<Rightarrow> string \<Rightarrow> string io" where
  "ensureYtt w version =
     io_bind (fileExists w ''ytt'') (\<lambda>found.
     if found then io_return (path_resolve w ''ytt'')
     else
       io_bind (io_lift (resolveYttAsset w version)) (\<lambda>(url, fileName).
       io_bind (mkdtemp w (path_join w [os_tmpdir w, ''apim-ytt-''])) (\<lambda>downloadDir.
       let targetPath = path_join w [downloadDir, fileName] in
       io_bind (fetch_get w url) (\<lambda>response.
       if \<not> ok response
       then io_throw (''Failed to download ytt: '' @ decimal (status response) @ '' ''
                        @ statusText response)
       else
         let buffer = bodyText response in
         io_bind (writeFile w targetPath buffer) (\<lambda>_.
         io_bind (chmod w targetPath 493) (\<lambda>_.       \<comment> \<open>mode \<^verbatim>\<open>0o755\<close>\<close>
         io_return targetPath))))))"

definition renderWithYtt :: "'v world \<Rightarrow> string \<Rightarrow> string \<Rightarrow> string \<Rightarrow> string \<Rightarrow> string io" where
  "renderWithYtt w templatePath valuesPath yttArgs yttVersion =
     io_bind (ensureYtt w yttVersion) (\<lambda>yttBin.
     let args = [''-f'', templatePath];
         args = (if valuesPath \<noteq> [] then args @ [''-f'', valuesPath] else args);
         args = (if yttArgs \<noteq> []
                 then args @ filter (\<lambda>item. trim item \<noteq> []) (split_on CHR '' '' yttArgs)
                 else args)
     in io_bind (execFileAsync w yttBin args None) (\<lambda>(stdout, stderr).
        io_bind (if stderr \<noteq> [] \<and> trim stderr \<noteq> [] then console_log (trim stderr)
                 else io_return ()) (\<lambda>_.
        io_return stdout)))"


section \<open>Document Loader\<close>

definition loadDocument :: "'v world \<Rightarrow> string \<Rightarrow> string option \<Rightarrow> ('v \<times> string) io" where
  \<comment> \<open>the hint is \<open>None\<close> when the argument is not given; the result is the pair of
      \<^verbatim>\<open>data\<close> and \<^verbatim>\<open>format\<close>\<close>
  "loadDocument w raw fileHint =
     (let trimmed = trim raw;
          isJson = ((case fileHint of None \<Rightarrow> False | Some h \<Rightarrow> h \<noteq> [] \<and> endsWith h ''.json'')
                    \<or> startsWith trimmed ''{'')
      in if isJson
         then io_bind (io_lift (JSON_parse w raw)) (\<lambda>data. io_return (data, ''json''))
         else io_bind (ensureModule w ''js-yaml'' ''4.1.0'') (\<lambda>yaml.
              io_bind (io_lift (yaml_load w yaml raw)) (\<lambda>data. io_return (data, ''yaml''))))"


section \<open>Schema Validator\<close>

definition validateSchema :: "'v world \<Rightarrow> 'v \<Rightarrow> string \<Rightarrow> unit io" where
  \<comment> \<open>\<^verbatim>\<open>src/index.js\<close>\<close>
  "validateSchema w document schemaUrl =
     io_bind (fetch_get w schemaUrl) (\<lambda>response.
     if \<not> ok response
     then io_throw (''Failed to fetch schema: '' @ decimal (status response) @ '' ''
                      @ statusText response)
     else
       io_bind (io_lift (JSON_parse w (bodyText response))) (\<lambda>schema.
       io_bind (ensureModule w ''ajv'' ''8.12.0'') (\<lambda>Ajv.
       io_bind (ensureModule w ''ajv-formats'' ''2.1.1'') (\<lambda>addFormats.
       io_bind (io_lift (js_new w Ajv \<lparr>allErrors = True, strict = False\<rparr>)) (\<lambda>ajv.
       io_bind (io_lift (js_call w addFormats ajv)) (\<lambda>ajv.
       io_bind (io_lift (ajv_compile w ajv schema)) (\<lambda>validate.
       let (valid, errors) = validate document in
       if \<not> valid
       then let details = ajv_errorsText w ajv errors newline
            in io_throw (''Schema validation failed:'' @ newline @ details)
       else io_return ())))))))"

definition dist_validateSchema :: "'v world \<Rightarrow> 'v \<Rightarrow> string \<Rightarrow> unit io" where
  \<comment> \<open>\<^verbatim>\<open>dist/index.js\<close>\<close>
  "dist_validateSchema w document schemaUrl =
     io_bind (fetch_get w schemaUrl) (\<lambda>response.
     if \<not> ok response
     then io_throw (''Failed to fetch schema: '' @ decimal (status response) @ '' ''
                      @ statusText response)
     else
       io_bind (io_lift (JSON_parse w (bodyText response))) (\<lambda>schema.
       io_bind (ensureModule w ''ajv-draft-04'' ''1.0.0'') (\<lambda>AjvDraft04.
       io_bind (ensureModule w ''ajv-formats'' ''2.1.1'') (\<lambda>addFormats.
       io_bind (io_lift (js_new w AjvDraft04 \<lparr>allErrors = True, strict = False\<rparr>)) (\<lambda>ajv.
       io_bind (io_lift (js_call w addFormats ajv)) (\<lambda>ajv.
       io_bind (io_lift (ajv_compile w ajv schema)) (\<lambda>validate.
       let (valid, errors) = validate document in
       if \<not> valid
       then let details = ajv_errorsText w ajv errors newline
            in io_throw (''Schema validation failed:'' @ newline @ details)
       else io_return ())))))))"


section \<open>Uploader\<close>

definition uploadDocument :: "'v world \<Rightarrow> 'v \<Rightarrow> string \<Rightarrow> string io" where
  "uploadDocument w document token =
     io_bind (fetch w \<lparr>req_method = ''POST'',
                       req_url = ''https://client.apimetrics.io/api/2/import'',
                       req_headers = [(''Content-Type'', ''application/json''),
                                      (''Authorization'', ''Bearer '' @ token)],
                       req_body = Some (JSON_stringify w document)\<rparr>) (\<lambda>response.
     if \<not> ok response
     then let body = bodyText response
          in io_throw (''Upload failed: '' @ decimal (status response) @ '' ''
                         @ statusText response @ newline @ body)
     else io_return (bodyText response))"


section \<open>Pipeline Orchestrator\<close>

definition run :: "'v world \<Rightarrow> unit io" where
  \<comment> \<open>\<^verbatim>\<open>src/index.js\<close>\<close>
  "run w =
     io_bind (io_lift (getInput w ''file'' no_options)) (\<lambda>fileInput.
     io_bind (io_lift (getInput w ''template'' no_options)) (\<lambda>templateInput.
     io_bind (io_lift (getInput w ''template_values'' no_options)) (\<lambda>valuesInput.
     io_bind (io_lift (getInput w ''token'' \<lparr>required = True\<rparr>)) (\<lambda>token.
     io_bind (io_lift (getInput w ''validate_schema'' no_options)) (\<lambda>validateInput.
     let validate = parseBoolean validateInput True in
     io_bind (io_lift (getInput w ''schema_url'' no_options)) (\<lambda>schemaUrlInput.
     let schemaUrl = (if schemaUrlInput \<noteq> [] then schemaUrlInput
                      else ''https://client.apimetrics.io/api/2/import/schema.json'') in
     io_bind (io_lift (getInput w ''ytt_version'' no_options)) (\<lambda>yttVersionInput.
     let yttVersion = (if yttVersionInput \<noteq> [] then yttVersionInput else ''v0.48.0'') in
     io_bind (io_lift (getInput w ''ytt_args'' no_options)) (\<lambda>yttArgs.
     if templateInput = [] \<and> fileInput = []
     then io_throw (''Provide either '' @ quote @ ''file'' @ quote @ '' or '' @ quote
                      @ ''template'' @ quote @ ''.'')
     else
       io_bind (if templateInput \<noteq> []
                then io_bind (renderWithYtt w templateInput valuesInput yttArgs yttVersion)
                       (\<lambda>rawContent. io_return (rawContent, templateInput))
                else io_bind (readFile w fileInput)
                       (\<lambda>rawContent. io_return (rawContent, fileInput)))
         (\<lambda>(rawContent, sourceHint).
       io_bind (loadDocument w rawContent (Some sourceHint)) (\<lambda>(data, _).
       io_bind (if validate then validateSchema w data schemaUrl else io_return ()) (\<lambda>_.
       io_bind (uploadDocument w data token) (\<lambda>resultText.
       if resultText \<noteq> [] \<and> trim resultText \<noteq> []
       then console_log (trim resultText)
       else console_log ''Upload complete.''))))))))))))"

definition dist_run :: "'v world \<Rightarrow> unit io" where
  \<comment> \<open>\<^verbatim>\<open>dist/index.js\<close>; the functions it calls are, \<^verbatim>\<open>validateSchema\<close> apart, letter for
      letter those of \<^verbatim>\<open>src/index.js\<close>\<close>
  "dist_run w =
     io_bind (io_lift (getInput w ''file'' no_options)) (\<lambda>fileInput.
     io_bind (io_lift (getInput w ''template'' no_options)) (\<lambda>templateInput.
     io_bind (io_lift (getInput w ''template_values'' no_options)) (\<lambda>valuesInput.
     io_bind (io_lift (getInput w ''token'' \<lparr>required = True\<rparr>)) (\<lambda>token.
     io_bind (io_lift (getInput w ''validate_schema'' no_options)) (\<lambda>validateInput.
     let validate = parseBoolean validateInput True in
     io_bind (io_lift (getInput w ''schema_url'' no_options)) (\<lambda>schemaUrlInput.
     let schemaUrl = (if schemaUrlInput \<noteq> [] then schemaUrlInput
                      else ''https://client.apimetrics.io/api/2/import/schema.json'') in
     io_bind (io_lift (getInput w ''ytt_version'' no_options)) (\<lambda>yttVersionInput.
     let yttVersion = (if yttVersionInput \<noteq> [] then yttVersionInput else ''v0.48.0'') in
     io_bind (io_lift (getInput w ''ytt_args'' no_options)) (\<lambda>yttArgs.
     if templateInput = [] \<and> fileInput = []
     then io_throw (''Provide either '' @ quote @ ''file'' @ quote @ '' or '' @ quote
                      @ ''template'' @ quote @ ''.'')
     else
       io_bind (if templateInput \<noteq> []
                then io_bind (renderWithYtt w templateInput valuesInput yttArgs yttVersion)
                       (\<lambda>rawContent. io_return (rawContent, templateInput))
                else io_bind (readFile w fileInput)
                       (\<lambda>rawContent. io_return (rawContent, fileInput)))
         (\<lambda>(rawContent, sourceHint).
       io_bind (loadDocument w rawContent (Some sourceHint)) (\<lambda>(data, _).
       io_bind (if validate then dist_validateSchema w data schemaUrl else io_return ()) (\<lambda>_.
       io_bind (uploadDocument w data token) (\<lambda>resultText.
       if resultText \<noteq> [] \<and> trim resultText \<noteq> []
       then console_log (trim resultText)
       else console_log ''Upload complete.''))))))))))))"


section \<open>The run up to the parsed document\<close>

text \<open>
  The first part of \<^verbatim>\<open>run\<close>, from its first line to the call of \<^verbatim>\<open>loadDocument\<close>: it ends
  with the document, the token, the validation flag and the schema URL. The lemma
  \<open>run_stages\<close> below shows that \<open>run\<close> is this part followed by validation, upload and
  report.
\<close>

definition run_until_parsed :: "'v world \<Rightarrow> ('v \<times> string \<times> bool \<times> string) io" where
  "run_until_parsed w =
     io_bind (io_lift (getInput w ''file'' no_options)) (\<lambda>fileInput.
     io_bind (io_lift (getInput w ''template'' no_options)) (\<lambda>templateInput.
     io_bind (io_lift (getInput w ''template_values'' no_options)) (\<lambda>valuesInput.
     io_bind (io_lift (getInput w ''token'' \<lparr>required = True\<rparr>)) (\<lambda>token.
     io_bind (io_lift (getInput w ''validate_schema'' no_options)) (\<lambda>validateInput.
     let validate = parseBoolean validateInput True in
     io_bind (io_lift (getInput w ''schema_url'' no_options)) (\<lambda>schemaUrlInput.
     let schemaUrl = (if schemaUrlInput \<noteq> [] then schemaUrlInput
                      else ''https://client.apimetrics.io/api/2/import/schema.json'') in
     io_bind (io_lift (getInput w ''ytt_version'' no_options)) (\<lambda>yttVersionInput.
     let yttVersion = (if yttVersionInput \<noteq> [] then yttVersionInput else ''v0.48.0'') in
     io_bind (io_lift (getInput w ''ytt_args'' no_options)) (\<lambda>yttArgs.
     if templateInput = [] \<and> fileInput = []
     then io_throw (''Provide either '' @ quote @ ''file'' @ quote @ '' or '' @ quote
                      @ ''template'' @ quote @ ''.'')
     else
       io_bind (if templateInput \<noteq> []
                then io_bind (renderWithYtt w templateInput valuesInput yttArgs yttVersion)
                       (\<lambda>rawContent. io_return (rawContent, templateInput))
                else io_bind (readFile w fileInput)
                       (\<lambda>rawContent. io_return (rawContent, fileInput)))
         (\<lambda>(rawContent, sourceHint).
       io_bind (loadDocument w rawContent (Some sourceHint)) (\<lambda>(data, _).
       io_return (data, token, validate, schemaUrl)))))))))))"


section \<open>Notions of the specification\<close>

definition equal_ignoring_case :: "string \<Rightarrow> string \<Rightarrow> bool" where
  \<comment> \<open>two strings compared case-insensitively\<close>
  "equal_ignoring_case a b = (toLowerCase a = toLowerCase b)"


definition is_upload :: "event \<Rightarrow> bool" where
  \<comment> \<open>the upload operation: a request with the method POST\<close>
  "is_upload ev = (case ev of Fetch req \<Rightarrow> req_method req = ''POST'' | _ \<Rightarrow> False)"

definition uploads :: "trace \<Rightarrow> trace" where
  \<comment> \<open>the uploads among the events\<close>
  "uploads s = filter is_upload s"

definition quiet :: "'a io \<Rightarrow> bool" where
  \<comment> \<open>an action that uploads nothing, from whatever events it starts\<close>
  "quiet m = (\<forall>s. uploads (snd (m s)) = uploads s)"

definition UnsupportedPlatformError :: "string \<Rightarrow> bool" where
  \<comment> \<open>the two messages with which asset resolution refuses a platform\<close>
  "UnsupportedPlatformError msg =
     (prefix ''Unsupported OS for ytt: '' msg
      \<or> prefix ''Unsupported architecture for ytt: '' msg)"


section \<open>A concrete world\<close>

text \<open>
  The examples run in a small world: Linux on x64, no \<^verbatim>\<open>ytt\<close> in the working directory, one
  file \<^verbatim>\<open>doc.json\<close>, every module installed, every request answered with 200. Its JSON
  parser knows the few documents of the examples and rejects every other text. Its
  JavaScript values are texts (a parsed document is its text), modules (by name),
  validator instances (the class they were made from, their options and the plug-ins
  applied to them) and violations (by message).
\<close>

datatype js_value =
    JsText string
  | JsModule string
  | JsInstance string ajv_options "string list"
  | JsViolation string

definition demo_documents :: "string list" where
  \<comment> \<open>the JSON texts of the examples: the parser of the concrete world accepts these, all of
      them JSON objects, and no other text\<close>
  \<open>demo_documents =
     [''{}'', ''{"a":1}'', ''{"a'' @ [CHR 0x5C] @ ''nb":1}'',
      ''{"$schema":"http://json-schema.org/draft-04/schema#"}'']\<close>

definition demo_world :: "js_value world" where
  \<open>demo_world = \<lparr>
     env = Map.empty,
     os_platform = ''linux'',
     os_arch = ''x64'',
     os_tmpdir = ''/tmp'',
     path_join = join ''/'',
     path_resolve = (\<lambda>p. ''/work/'' @ p),
     fs_access = (\<lambda>_ _. False),
     fs_mkdtemp = (\<lambda>_ p. Inr (p @ ''XXXXXX'')),
     fs_readFile = (\<lambda>_ p. if p = ''doc.json'' then Inr ''{"a":1}'' else Inl ''ENOENT''),
     fs_writeFile = (\<lambda>_ _ _. Inr ()),
     fs_chmod = (\<lambda>_ _ _. Inr ()),
     exec_file = (\<lambda>_ _ _ _. Inl ''spawn failed''),
     http_fetch = (\<lambda>_ _. Inr \<lparr>ok = True, status = 200, statusText = ''OK'', bodyText = ''{}''\<rparr>),
     node_require = (\<lambda>_ name. Inr (JsModule name)),
     JSON_parse = (\<lambda>s. if s \<in> set demo_documents then Inr (JsText s)
                        else Inl ''Unexpected token''),
     JSON_stringify = (\<lambda>v. case v of JsText s \<Rightarrow> s | _ \<Rightarrow> ''null''),
     yaml_load = (\<lambda>_ s. Inr (JsText s)),
     js_new = (\<lambda>c opts. case c of JsModule name \<Rightarrow> Inr (JsInstance name opts [])
                                  | _ \<Rightarrow> Inl ''not a constructor''),
     js_call = (\<lambda>f x. case (f, x) of
                  (JsModule name, JsInstance c opts ps) \<Rightarrow> Inr (JsInstance c opts (ps @ [name]))
                | _ \<Rightarrow> Inl ''not a function''),
     ajv_compile = (\<lambda>_ _. Inr (\<lambda>_. (True, []))),
     ajv_errorsText = (\<lambda>_ errors sep.
                  join sep (map (\<lambda>e. case e of JsViolation m \<Rightarrow> m | _ \<Rightarrow> ''error'') errors))
   \<rparr>\<close>


text \<open>The same world with a token, the file as input and a validator that finds two violations.\<close>

definition invalid_world :: "js_value world" where
  \<open>invalid_world = demo_world\<lparr>
     env := map_of [(''INPUT_FILE'', ''doc.json''), (''INPUT_TOKEN'', ''s3cret'')],
     ajv_compile := (\<lambda>_ _. Inr (\<lambda>_. (False,
        [JsViolation ''data must have required property name'',
         JsViolation ''data/a must be string''])))\<rparr>\<close>

text \<open>
  The world of a document with a property whose name holds a line feed: the validator finds
  one violation, at that property.
\<close>

definition linefeed_world :: "js_value world" where
  \<open>linefeed_world = demo_world\<lparr>
     env := map_of [(''INPUT_FILE'', ''doc.json''), (''INPUT_TOKEN'', ''s3cret'')],
     ajv_compile := (\<lambda>_ _. Inr (\<lambda>_. (False,
        [JsViolation (''data/a'' @ newline @ ''b must be string'')])))\<rparr>\<close>

text \<open>The same world with validation switched off and the \<^verbatim>\<open>endpoint\<close> input set.\<close>

definition endpoint_world :: "js_value world" where
  "endpoint_world = demo_world\<lparr>
     env := map_of [(''INPUT_FILE'', ''doc.json''), (''INPUT_TOKEN'', ''s3cret''),
                    (''INPUT_VALIDATE_SCHEMA'', ''false''),
                    (''INPUT_ENDPOINT'', ''https://staging.example.test/api/2/import'')]\<rparr>"

text \<open>
  The same world where the schema declares Draft-04: the validator class of \<^verbatim>\<open>ajv-draft-04\<close>
  compiles it, that of \<^verbatim>\<open>ajv\<close> does not know the dialect and throws.
\<close>

definition draft04_world :: "js_value world" where
  \<open>draft04_world = demo_world\<lparr>
     env := map_of [(''INPUT_FILE'', ''doc.json''), (''INPUT_TOKEN'', ''s3cret'')],
     http_fetch := (\<lambda>_ req.
        if req_method req = ''GET''
        then Inr \<lparr>ok = True, status = 200, statusText = ''OK'',
                  bodyText = ''{"$schema":"http://json-schema.org/draft-04/schema#"}''\<rparr>
        else Inr \<lparr>ok = True, status = 200, statusText = ''OK'', bodyText = ''imported''\<rparr>),
     ajv_compile := (\<lambda>ajv schema.
        case ajv of
          JsInstance c opts ps \<Rightarrow>
            if c = ''ajv-draft-04'' then Inr (\<lambda>_. (True, []))
            else Inl ''no schema with key or ref "http://json-schema.org/draft-04/schema#"''
        | _ \<Rightarrow> Inl ''not a validator'')\<rparr>\<close>


section \<open>Sequencing\<close>

lemma io_bind_lift [simp]:
  "io_bind (io_lift (Inr x)) f s = f x s"
  "io_bind (io_lift (Inl e)) f s = (Inl e, s)"
  by (simp_all add: io_bind_def io_lift_def)

lemma io_bind_return [simp]: "io_bind (io_return x) f s = f x s"
  by (simp add: io_bind_def io_return_def)

lemma io_bind_throw [simp]: "io_bind (io_throw e) f s = (Inl e, s)"
  by (simp add: io_bind_def io_throw_def)

lemma io_bind_perform [simp]:
  "io_bind (perform ev answer) f s =
     (case answer s of Inl e \<Rightarrow> (Inl e, s @ [ev]) | Inr x \<Rightarrow> f x (s @ [ev]))"
  by (simp add: io_bind_def perform_def split: sum.splits)


section \<open>Properties of the string functions\<close>

lemma toLowerChar_code: "isUpperCase c \<Longrightarrow> of_char (toLowerChar c) = (of_char c :: nat) + 32"
  by (cases c) (auto simp add: toLowerChar_def isUpperCase_def Let_def of_bool_def split: if_splits)

lemma toUpperChar_code: "isLowerCase c \<Longrightarrow> (of_char (toUpperChar c) :: nat) + 32 = of_char c"
  by (cases c) (auto simp add: toUpperChar_def isLowerCase_def Let_def of_bool_def split: if_splits)

lemma toLowerCase_literals:
  "toLowerCase ''1'' = ''1''" "toLowerCase ''true'' = ''true''"
  "toLowerCase ''yes'' = ''yes''" "toLowerCase ''on'' = ''on''"
  by (simp_all add: toLowerCase_def toLowerChar_def isUpperCase_def)

lemma dropWhile_all: "(\<forall>x \<in> set (dropWhile P xs). P x) \<longleftrightarrow> (\<forall>x \<in> set xs. P x)"
proof
  assume a: "\<forall>x \<in> set (dropWhile P xs). P x"
  have "dropWhile P xs = []"
  proof (rule ccontr)
    assume n: "dropWhile P xs \<noteq> []"
    then have "\<not> P (hd (dropWhile P xs))" by (rule hd_dropWhile)
    moreover have "hd (dropWhile P xs) \<in> set (dropWhile P xs)" using n by simp
    ultimately show False using a by blast
  qed
  then show "\<forall>x \<in> set xs. P x" by simp
next
  assume "\<forall>x \<in> set xs. P x"
  then show "\<forall>x \<in> set (dropWhile P xs). P x" by (meson set_dropWhileD)
qed

lemma trim_blank: "trim s = [] \<longleftrightarrow> (\<forall>c \<in> set s. isWhiteSpace c)"
  by (simp add: trim_def dropWhile_all)

lemma endsWith_suffix: "endsWith s p \<longleftrightarrow> suffix p s"
proof
  assume "endsWith s p"
  then have "s = take (length s - length p) s @ p"
    by (metis append_take_drop_id endsWith_def)
  then show "suffix p s" by (metis suffixI)
next
  assume "suffix p s"
  then obtain zs where "s = zs @ p" by (auto simp add: suffix_def)
  then show "endsWith s p" by (simp add: endsWith_def)
qed

lemma startsWith_prefix: "startsWith s p \<longleftrightarrow> prefix p s"
proof
  assume "startsWith s p"
  then have "s = p @ drop (length p) s"
    by (metis append_take_drop_id startsWith_def)
  then show "prefix p s" by (metis prefixI)
next
  assume "prefix p s"
  then obtain zs where "s = p @ zs" by (auto simp add: prefix_def)
  then show "startsWith s p" by (simp add: startsWith_def)
qed

lemma input_keys:
  "input_key ''file'' = ''INPUT_FILE''"
  "input_key ''template'' = ''INPUT_TEMPLATE''"
  "input_key ''template_values'' = ''INPUT_TEMPLATE_VALUES''"
  "input_key ''token'' = ''INPUT_TOKEN''"
  "input_key ''validate_schema'' = ''INPUT_VALIDATE_SCHEMA''"
  "input_key ''schema_url'' = ''INPUT_SCHEMA_URL''"
  "input_key ''ytt_version'' = ''INPUT_YTT_VERSION''"
  "input_key ''ytt_args'' = ''INPUT_YTT_ARGS''"
  by (simp_all add: input_key_def toUpperCase_def toUpperChar_def isLowerCase_def
        replaceSpaces_def)


section \<open>Configuration Reader: the claims\<close>

text \<open>
  C5. \<^verbatim>\<open>parseBoolean(value, default)\<close> returns the default for the empty string; for every
  other string it returns true exactly when the string is, compared case-insensitively,
  one of \<^verbatim>\<open>"1"\<close>, \<^verbatim>\<open>"true"\<close>, \<^verbatim>\<open>"yes"\<close>, \<^verbatim>\<open>"on"\<close>, and false otherwise.
\<close>

theorem C5_parseBoolean:
  "parseBoolean [] d = d \<and>
   (v \<noteq> [] \<longrightarrow>
      parseBoolean v d = (\<exists>l \<in> {''1'', ''true'', ''yes'', ''on''}. equal_ignoring_case v l))"
  by (simp add: parseBoolean_def equal_ignoring_case_def toLowerCase_literals)

theorem C5_parseBoolean_witness:
  "parseBoolean [] False = False \<and> ''Yes'' \<noteq> [] \<and> parseBoolean ''Yes'' False
   \<and> ''no'' \<noteq> [] \<and> \<not> parseBoolean ''no'' True"
  using C5_parseBoolean [of False "''Yes''"] C5_parseBoolean [of True "''no''"]
  by (simp add: equal_ignoring_case_def toLowerCase_def toLowerChar_def isUpperCase_def)

text \<open>
  C6. \<^verbatim>\<open>getInput(name, {required: true})\<close> fails with the message
  \<^verbatim>\<open>Missing required input: <name>\<close> whenever the environment value of the input is absent
  or blank (empty, or white space only); when the input is not required and absent, the
  result is the empty string.
\<close>

theorem C6_getInput:
  "(env w (input_key name) = None
      \<or> (\<exists>v. env w (input_key name) = Some v \<and> (\<forall>c \<in> set v. isWhiteSpace c))
    \<longrightarrow> getInput w name \<lparr>required = True\<rparr> = Inl (''Missing required input: '' @ name))
   \<and> (env w (input_key name) = None \<longrightarrow> getInput w name \<lparr>required = False\<rparr> = Inr [])
   \<and> (env w (input_key name) = None \<longrightarrow> getInput w name no_options = Inr [])"
  by (auto simp add: getInput_def no_options_def trim_blank)

theorem C6_getInput_witness:
  "getInput (demo_world\<lparr>env := map_of [(''INPUT_TOKEN'', [CHR '' '', CHR 0x09])]\<rparr>) ''token''
     \<lparr>required = True\<rparr> = Inl ''Missing required input: token''
   \<and> getInput demo_world ''token'' \<lparr>required = True\<rparr> = Inl ''Missing required input: token''
   \<and> getInput demo_world ''file'' \<lparr>required = False\<rparr> = Inr []"
  using C6_getInput [of "demo_world\<lparr>env := map_of [(''INPUT_TOKEN'', [CHR '' '', CHR 0x09])]\<rparr>"
                        "''token''"]
        C6_getInput [of demo_world "''token''"]
        C6_getInput [of demo_world "''file''"]
  by (simp add: input_keys demo_world_def isWhiteSpace_def)

lemma getInput_optional:
  "getInput w name no_options = Inr (case env w (input_key name) of None \<Rightarrow> [] | Some v \<Rightarrow> v)"
  by (simp add: getInput_def no_options_def)

text \<open>
  C10. The required token is checked before the presence of \<^verbatim>\<open>file\<close> or \<^verbatim>\<open>template\<close> and
  before any file read, rendering or network call: whenever the token is absent or blank,
  the run fails with \<^verbatim>\<open>Missing required input: token\<close> and no event has happened,
  whatever the other inputs are.
\<close>

theorem C10_token_first:
  "env w ''INPUT_TOKEN'' = None
     \<or> (\<exists>v. env w ''INPUT_TOKEN'' = Some v \<and> (\<forall>c \<in> set v. isWhiteSpace c))
   \<Longrightarrow> run w s = (Inl ''Missing required input: token'', s)"
proof -
  assume a: "env w ''INPUT_TOKEN'' = None
     \<or> (\<exists>v. env w ''INPUT_TOKEN'' = Some v \<and> (\<forall>c \<in> set v. isWhiteSpace c))"
  then have "getInput w ''token'' \<lparr>required = True\<rparr> = Inl (''Missing required input: '' @ ''token'')"
    by (auto simp add: getInput_def input_keys trim_blank)
  then show ?thesis
    by (simp add: run_def getInput_optional)
qed

theorem C10_token_first_witness:
  "run (demo_world\<lparr>env := map_of [(''INPUT_SCHEMA_URL'', ''https://example.test/s.json'')]\<rparr>) []
     = (Inl ''Missing required input: token'', [])
   \<and> run (demo_world\<lparr>env := map_of [(''INPUT_FILE'', ''doc.json''), (''INPUT_TOKEN'', '' '')]\<rparr>) []
     = (Inl ''Missing required input: token'', [])"
  using C10_token_first [of "demo_world\<lparr>env := map_of [(''INPUT_SCHEMA_URL'', ''https://example.test/s.json'')]\<rparr>" "[]"]
        C10_token_first [of "demo_world\<lparr>env := map_of [(''INPUT_FILE'', ''doc.json''), (''INPUT_TOKEN'', '' '')]\<rparr>" "[]"]
  by (simp add: isWhiteSpace_def)


section \<open>Tool Provisioner: the claims\<close>

lemma resolveYttAsset_ok:
  "(\<exists>r. resolveYttAsset w version = Inr r)
     \<longleftrightarrow> os_platform w \<in> {''darwin'', ''linux''} \<and> os_arch w \<in> {''x64'', ''arm64''}"
  by (auto simp add: resolveYttAsset_def Let_def)

lemma resolveYttAsset_os:
  "os_platform w \<notin> {''darwin'', ''linux''}
     \<Longrightarrow> resolveYttAsset w version = Inl (''Unsupported OS for ytt: '' @ os_platform w)"
  by (auto simp add: resolveYttAsset_def Let_def)

lemma resolveYttAsset_arch:
  "os_platform w \<in> {''darwin'', ''linux''} \<Longrightarrow> os_arch w \<notin> {''x64'', ''arm64''}
     \<Longrightarrow> resolveYttAsset w version = Inl (''Unsupported architecture for ytt: '' @ os_arch w)"
  by (auto simp add: resolveYttAsset_def Let_def)

lemma ensureYtt_unsupported:
  "resolveYttAsset w version = Inl msg \<Longrightarrow> \<not> fs_access w s ''ytt''
     \<Longrightarrow> ensureYtt w version s = (Inl msg, s @ [Access ''ytt''])"
  by (simp add: ensureYtt_def fileExists_def)

text \<open>
  C7. Asset resolution succeeds only for the operating systems \<^verbatim>\<open>darwin\<close> and \<^verbatim>\<open>linux\<close> and
  the architectures \<^verbatim>\<open>x64\<close> and \<^verbatim>\<open>arm64\<close>. Every other operating system and every other
  architecture is refused with an unsupported-platform message, and the provisioner then
  stops after looking for a local \<^verbatim>\<open>ytt\<close>: no directory is made and nothing is downloaded.
\<close>

theorem C7_unsupported_platform:
  "((\<exists>r. resolveYttAsset w version = Inr r)
      \<longleftrightarrow> os_platform w \<in> {''darwin'', ''linux''} \<and> os_arch w \<in> {''x64'', ''arm64''})
   \<and> (os_platform w \<notin> {''darwin'', ''linux''} \<longrightarrow>
        resolveYttAsset w version = Inl (''Unsupported OS for ytt: '' @ os_platform w))
   \<and> (os_platform w \<in> {''darwin'', ''linux''} \<and> os_arch w \<notin> {''x64'', ''arm64''} \<longrightarrow>
        resolveYttAsset w version = Inl (''Unsupported architecture for ytt: '' @ os_arch w))
   \<and> (os_platform w \<notin> {''darwin'', ''linux''} \<or> os_arch w \<notin> {''x64'', ''arm64''} \<longrightarrow>
        (\<exists>msg. UnsupportedPlatformError msg \<and> resolveYttAsset w version = Inl msg
           \<and> (\<not> fs_access w s ''ytt'' \<longrightarrow>
                 ensureYtt w version s = (Inl msg, s @ [Access ''ytt'']))))"
proof (intro conjI impI)
  show "(\<exists>r. resolveYttAsset w version = Inr r)
      \<longleftrightarrow> os_platform w \<in> {''darwin'', ''linux''} \<and> os_arch w \<in> {''x64'', ''arm64''}"
    by (rule resolveYttAsset_ok)
next
  assume "os_platform w \<notin> {''darwin'', ''linux''}"
  then show "resolveYttAsset w version = Inl (''Unsupported OS for ytt: '' @ os_platform w)"
    by (rule resolveYttAsset_os)
next
  assume "os_platform w \<in> {''darwin'', ''linux''} \<and> os_arch w \<notin> {''x64'', ''arm64''}"
  then show "resolveYttAsset w version = Inl (''Unsupported architecture for ytt: '' @ os_arch w)"
    by (simp add: resolveYttAsset_arch)
next
  assume a: "os_platform w \<notin> {''darwin'', ''linux''} \<or> os_arch w \<notin> {''x64'', ''arm64''}"
  show "\<exists>msg. UnsupportedPlatformError msg \<and> resolveYttAsset w version = Inl msg
           \<and> (\<not> fs_access w s ''ytt'' \<longrightarrow>
                 ensureYtt w version s = (Inl msg, s @ [Access ''ytt'']))"
  proof (cases "os_platform w \<in> {''darwin'', ''linux''}")
    case False
    then have r: "resolveYttAsset w version = Inl (''Unsupported OS for ytt: '' @ os_platform w)"
      by (rule resolveYttAsset_os)
    have "UnsupportedPlatformError (''Unsupported OS for ytt: '' @ os_platform w)"
      unfolding UnsupportedPlatformError_def by (rule disjI1) (rule prefixI, rule refl)
    with r show ?thesis by (metis ensureYtt_unsupported)
  next
    case True
    with a have "os_arch w \<notin> {''x64'', ''arm64''}" by blast
    with True have r: "resolveYttAsset w version = Inl (''Unsupported architecture for ytt: '' @ os_arch w)"
      by (rule resolveYttAsset_arch)
    have "UnsupportedPlatformError (''Unsupported architecture for ytt: '' @ os_arch w)"
      unfolding UnsupportedPlatformError_def by (rule disjI2) (rule prefixI, rule refl)
    with r show ?thesis by (metis ensureYtt_unsupported)
  qed
qed

theorem C7_unsupported_platform_witness:
  "resolveYttAsset (demo_world\<lparr>os_platform := ''win32''\<rparr>) ''v0.48.0''
      = Inl ''Unsupported OS for ytt: win32''
   \<and> ensureYtt (demo_world\<lparr>os_platform := ''win32''\<rparr>) ''v0.48.0'' []
      = (Inl ''Unsupported OS for ytt: win32'', [Access ''ytt''])
   \<and> resolveYttAsset (demo_world\<lparr>os_arch := ''ia32''\<rparr>) ''v0.48.0''
      = Inl ''Unsupported architecture for ytt: ia32''
   \<and> (\<exists>r. resolveYttAsset demo_world ''v0.48.0'' = Inr r)"
proof -
  let ?w = "demo_world\<lparr>os_platform := ''win32''\<rparr>"
  let ?a = "demo_world\<lparr>os_arch := ''ia32''\<rparr>"
  note win = C7_unsupported_platform [of ?w "''v0.48.0''" "[]"]
  note ia32 = C7_unsupported_platform [of ?a "''v0.48.0''" "[]"]
  note linux = C7_unsupported_platform [of demo_world "''v0.48.0''" "[]"]
  have p: "os_platform ?w \<notin> {''darwin'', ''linux''}" "os_platform ?w = ''win32''"
          "\<not> fs_access ?w [] ''ytt''"
    by (simp_all add: demo_world_def)
  have q: "os_platform ?a \<in> {''darwin'', ''linux''}" "os_arch ?a \<notin> {''x64'', ''arm64''}"
          "os_arch ?a = ''ia32''"
    by (simp_all add: demo_world_def)
  have r: "os_platform demo_world \<in> {''darwin'', ''linux''}"
          "os_arch demo_world \<in> {''x64'', ''arm64''}"
    by (simp_all add: demo_world_def)
  have "resolveYttAsset ?w ''v0.48.0'' = Inl (''Unsupported OS for ytt: '' @ os_platform ?w)"
    using win p(1) by blast
  then have 1: "resolveYttAsset ?w ''v0.48.0'' = Inl ''Unsupported OS for ytt: win32''"
    by simp
  from win p(1) obtain msg where
    m: "resolveYttAsset ?w ''v0.48.0'' = Inl msg"
       "\<not> fs_access ?w [] ''ytt'' \<longrightarrow> ensureYtt ?w ''v0.48.0'' [] = (Inl msg, [] @ [Access ''ytt''])"
    by blast
  from m(1) 1 have "msg = ''Unsupported OS for ytt: win32''" by simp
  with m(2) p(3) have 2: "ensureYtt ?w ''v0.48.0'' []
      = (Inl ''Unsupported OS for ytt: win32'', [Access ''ytt''])"
    by simp
  have "resolveYttAsset ?a ''v0.48.0'' = Inl (''Unsupported architecture for ytt: '' @ os_arch ?a)"
    using ia32 q(1,2) by blast
  then have 3: "resolveYttAsset ?a ''v0.48.0'' = Inl ''Unsupported architecture for ytt: ia32''"
    by simp
  have 4: "\<exists>r. resolveYttAsset demo_world ''v0.48.0'' = Inr r"
    using linux r by blast
  from 1 2 3 4 show ?thesis by blast
qed


section \<open>Document Loader: the claims\<close>

text \<open>
  C4. The loader takes the JSON path if and only if the hint ends with \<^verbatim>\<open>.json\<close> or the
  trimmed text begins with \<^verbatim>\<open>{\<close>: it then returns what \<^verbatim>\<open>JSON.parse\<close> makes of the raw text,
  tagged \<^verbatim>\<open>json\<close>, or fails with the parser's error, and loads no module. In every other
  case it takes the YAML path: it loads \<^verbatim>\<open>js-yaml\<close> and returns what \<^verbatim>\<open>yaml.load\<close> makes of
  the raw text, tagged \<^verbatim>\<open>yaml\<close>.
\<close>

theorem C4_format_detection:
  "loadDocument w raw hint s =
     (if (\<exists>h. hint = Some h \<and> suffix ''.json'' h) \<or> prefix ''{'' (trim raw)
      then (case JSON_parse w raw of
              Inl e \<Rightarrow> (Inl e, s)
            | Inr data \<Rightarrow> (Inr (data, ''json''), s))
      else (case ensureModule w ''js-yaml'' ''4.1.0'' s of
              (Inl e, s') \<Rightarrow> (Inl e, s')
            | (Inr yaml, s') \<Rightarrow>
                (case yaml_load w yaml raw of
                   Inl e \<Rightarrow> (Inl e, s')
                 | Inr data \<Rightarrow> (Inr (data, ''yaml''), s'))))"
proof -
  have h: "(case hint of None \<Rightarrow> False | Some h \<Rightarrow> h \<noteq> [] \<and> endsWith h ''.json'')
             \<longleftrightarrow> (\<exists>h. hint = Some h \<and> suffix ''.json'' h)"
    by (cases hint) (auto simp add: endsWith_suffix)
  show ?thesis
    unfolding loadDocument_def Let_def h startsWith_prefix
    by (auto simp add: io_bind_def io_lift_def io_return_def split: sum.splits prod.splits)
qed

theorem C4_format_detection_witness:
  \<open>loadDocument demo_world ''{"a":1}'' None [] = (Inr (JsText ''{"a":1}'', ''json''), [])
   \<and> loadDocument demo_world ''a: 1'' (Some ''values.json'') [] = (Inl ''Unexpected token'', [])
   \<and> loadDocument demo_world ''a: 1'' (Some ''doc.yaml'') []
        = (Inr (JsText ''a: 1'', ''yaml''), [Require ''js-yaml''])\<close>
proof -
  have 1: \<open>loadDocument demo_world ''{"a":1}'' None [] = (Inr (JsText ''{"a":1}'', ''json''), [])\<close>
    using C4_format_detection [of demo_world \<open>''{"a":1}''\<close> None "[]"]
    by (simp add: demo_world_def trim_def isWhiteSpace_def startsWith_def demo_documents_def)
  have 2: "loadDocument demo_world ''a: 1'' (Some ''values.json'') [] = (Inl ''Unexpected token'', [])"
    using C4_format_detection [of demo_world "''a: 1''" "Some ''values.json''" "[]"]
    by (simp add: demo_world_def trim_def isWhiteSpace_def startsWith_def demo_documents_def suffix_def)
  have 3: "loadDocument demo_world ''a: 1'' (Some ''doc.yaml'') []
        = (Inr (JsText ''a: 1'', ''yaml''), [Require ''js-yaml''])"
    using C4_format_detection [of demo_world "''a: 1''" "Some ''doc.yaml''" "[]"]
    by (simp add: demo_world_def trim_def isWhiteSpace_def startsWith_def demo_documents_def suffix_def
          ensureModule_def io_catch_def require_def perform_def)
  from 1 2 3 show ?thesis by blast
qed


section \<open>Pipeline Orchestrator: validation before upload\<close>

lemma io_bind_assoc: "io_bind (io_bind m f) g = io_bind m (\<lambda>x. io_bind (f x) g)"
  by (rule ext) (simp add: io_bind_def split: prod.splits sum.splits)

lemma io_bind_if: "io_bind (if c then a else b) f = (if c then io_bind a f else io_bind b f)"
  by simp

lemma io_bind_case_prod:
  "io_bind (case p of (a, b) \<Rightarrow> h a b) f = (case p of (a, b) \<Rightarrow> io_bind (h a b) f)"
  by (cases p) simp

lemma io_bind_return_fun [simp]: "io_bind (io_return x) f = f x"
  by (rule ext) simp

lemma io_bind_throw_fun [simp]: "io_bind (io_throw e) f = io_throw e"
  by (rule ext) (simp add: io_throw_def)

lemma run_stages:
  "run w =
     io_bind (run_until_parsed w) (\<lambda>(data, token, validate, schemaUrl).
     io_bind (if validate then validateSchema w data schemaUrl else io_return ()) (\<lambda>_.
     io_bind (uploadDocument w data token) (\<lambda>resultText.
     if resultText \<noteq> [] \<and> trim resultText \<noteq> []
     then console_log (trim resultText)
     else console_log ''Upload complete.'')))"
  unfolding run_def run_until_parsed_def Let_def
  by (simp only: io_bind_assoc io_bind_if io_bind_case_prod io_bind_return_fun io_bind_throw_fun
        prod.case cong: if_cong)

lemma quiet_return: "quiet (io_return x)"
  by (simp add: quiet_def io_return_def)

lemma quiet_throw: "quiet (io_throw e)"
  by (simp add: quiet_def io_throw_def)

lemma quiet_lift: "quiet (io_lift r)"
  by (simp add: quiet_def io_lift_def)

lemma quiet_perform: "\<not> is_upload ev \<Longrightarrow> quiet (perform ev answer)"
  by (simp add: quiet_def perform_def uploads_def)

lemma quiet_bind: "quiet m \<Longrightarrow> (\<And>x. quiet (f x)) \<Longrightarrow> quiet (io_bind m f)"
  unfolding quiet_def io_bind_def
  by (auto split: prod.splits sum.splits) (metis snd_conv)+

lemma quiet_catch: "quiet m \<Longrightarrow> (\<And>e. quiet (h e)) \<Longrightarrow> quiet (io_catch m h)"
  unfolding quiet_def io_catch_def
  by (auto split: prod.splits sum.splits) (metis snd_conv)+

lemma quiet_if: "quiet a \<Longrightarrow> quiet b \<Longrightarrow> quiet (if c then a else b)"
  by simp

lemma quiet_case_prod: "(\<And>a b. quiet (f a b)) \<Longrightarrow> quiet (case p of (a, b) \<Rightarrow> f a b)"
  by (cases p) simp

lemma quiet_outside:
  "quiet (require w name)" "quiet (mkdtemp w pre)" "quiet (execFileAsync w file args cwd)"
  "quiet (readFile w p)" "quiet (writeFile w p data)" "quiet (chmod w p mode)"
  "quiet (console_log msg)" "quiet (fileExists w p)" "quiet (fetch_get w u)"
  by (simp_all add: require_def mkdtemp_def execFileAsync_def readFile_def writeFile_def
        chmod_def console_log_def fileExists_def fetch_get_def fetch_def quiet_perform
        is_upload_def)

lemmas quiet_intros = quiet_return quiet_throw quiet_lift quiet_bind quiet_catch quiet_if
  quiet_case_prod quiet_outside

lemma quiet_ensureModule: "quiet (ensureModule w moduleName version)"
  unfolding ensureModule_def Let_def by (intro quiet_intros)

lemma quiet_ensureYtt: "quiet (ensureYtt w version)"
  unfolding ensureYtt_def Let_def by (intro quiet_intros)

lemma quiet_renderWithYtt: "quiet (renderWithYtt w templatePath valuesPath yttArgs yttVersion)"
  unfolding renderWithYtt_def Let_def by (intro quiet_intros quiet_ensureYtt)

lemma quiet_loadDocument: "quiet (loadDocument w raw fileHint)"
  unfolding loadDocument_def Let_def by (intro quiet_intros quiet_ensureModule)

lemma quiet_validateSchema: "quiet (validateSchema w document schemaUrl)"
  unfolding validateSchema_def Let_def by (intro quiet_intros quiet_ensureModule)

lemma quiet_dist_validateSchema: "quiet (dist_validateSchema w document schemaUrl)"
  unfolding dist_validateSchema_def Let_def by (intro quiet_intros quiet_ensureModule)

lemma quiet_run_until_parsed: "quiet (run_until_parsed w)"
  unfolding run_until_parsed_def Let_def
  by (intro quiet_intros quiet_renderWithYtt quiet_loadDocument)

lemma quietD: "quiet m \<Longrightarrow> m s = (r, s') \<Longrightarrow> uploads s' = uploads s"
  unfolding quiet_def by (metis snd_conv)

lemma run_fails_before_validation:
  "run_until_parsed w s0 = (Inl e, s1) \<Longrightarrow> run w s0 = (Inl e, s1) \<and> uploads s1 = uploads s0"
  using quietD [OF quiet_run_until_parsed] by (simp add: run_stages io_bind_def)

text \<open>
  C8. When the run has its parsed document and the validation flag is true, nothing has
  been uploaded yet, and the validator runs next. If it fails, the run ends with the
  validator's error and no upload has happened. If it succeeds, still nothing has been
  uploaded when it returns, and what remains of the run is the upload of the document and
  the report.
\<close>

theorem C8_validate_before_upload:
  assumes "run_until_parsed w s0 = (Inr (data, token, True, schemaUrl), s1)"
  shows "uploads s1 = uploads s0 \<and>
         (case validateSchema w data schemaUrl s1 of
            (Inl e, s2) \<Rightarrow> run w s0 = (Inl e, s2) \<and> uploads s2 = uploads s0
          | (Inr _, s2) \<Rightarrow>
              uploads s2 = uploads s0 \<and>
              run w s0 =
                io_bind (uploadDocument w data token) (\<lambda>resultText.
                  if resultText \<noteq> [] \<and> trim resultText \<noteq> []
                  then console_log (trim resultText)
                  else console_log ''Upload complete.'') s2)"
proof -
  have 1: "uploads s1 = uploads s0"
    using quiet_run_until_parsed assms by (rule quietD)
  obtain r s2 where v: "validateSchema w data schemaUrl s1 = (r, s2)"
    by (cases "validateSchema w data schemaUrl s1")
  have 2: "uploads s2 = uploads s0"
    using quietD [OF quiet_validateSchema v] 1 by simp
  show ?thesis
  proof (cases r)
    case (Inl e)
    then have "run w s0 = (Inl e, s2)"
      using assms v by (simp add: run_stages io_bind_def)
    with 1 2 v Inl show ?thesis by simp
  next
    case (Inr u)
    then have "run w s0 =
                io_bind (uploadDocument w data token) (\<lambda>resultText.
                  if resultText \<noteq> [] \<and> trim resultText \<noteq> []
                  then console_log (trim resultText)
                  else console_log ''Upload complete.'') s2"
      using assms v by (simp add: run_stages io_bind_def)
    with 1 2 v Inr show ?thesis by simp
  qed
qed


section \<open>Evaluation in the concrete world\<close>

lemma demo_world_fields:
  "env demo_world = Map.empty"
  "os_platform demo_world = ''linux''"
  "os_arch demo_world = ''x64''"
  "os_tmpdir demo_world = ''/tmp''"
  "path_join demo_world = join ''/''"
  "path_resolve demo_world = (\<lambda>p. ''/work/'' @ p)"
  "fs_access demo_world = (\<lambda>_ _. False)"
  "fs_mkdtemp demo_world = (\<lambda>_ p. Inr (p @ ''XXXXXX''))"
  \<open>fs_readFile demo_world = (\<lambda>_ p. if p = ''doc.json'' then Inr ''{"a":1}'' else Inl ''ENOENT'')\<close>
  "fs_writeFile demo_world = (\<lambda>_ _ _. Inr ())"
  "fs_chmod demo_world = (\<lambda>_ _ _. Inr ())"
  "exec_file demo_world = (\<lambda>_ _ _ _. Inl ''spawn failed'')"
  "http_fetch demo_world
     = (\<lambda>_ _. Inr \<lparr>ok = True, status = 200, statusText = ''OK'', bodyText = ''{}''\<rparr>)"
  "node_require demo_world = (\<lambda>_ name. Inr (JsModule name))"
  "JSON_parse demo_world = (\<lambda>s. if s \<in> set demo_documents then Inr (JsText s)
                                  else Inl ''Unexpected token'')"
  "JSON_stringify demo_world = (\<lambda>v. case v of JsText s \<Rightarrow> s | _ \<Rightarrow> ''null'')"
  "yaml_load demo_world = (\<lambda>_ s. Inr (JsText s))"
  "js_new demo_world = (\<lambda>c opts. case c of JsModule name \<Rightarrow> Inr (JsInstance name opts [])
                                          | _ \<Rightarrow> Inl ''not a constructor'')"
  "js_call demo_world = (\<lambda>f x. case (f, x) of
                  (JsModule name, JsInstance c opts ps) \<Rightarrow> Inr (JsInstance c opts (ps @ [name]))
                | _ \<Rightarrow> Inl ''not a function'')"
  "ajv_compile demo_world = (\<lambda>_ _. Inr (\<lambda>_. (True, [])))"
  "ajv_errorsText demo_world = (\<lambda>_ errors sep.
                  join sep (map (\<lambda>e. case e of JsViolation m \<Rightarrow> m | _ \<Rightarrow> ''error'') errors))"
  by (simp_all add: demo_world_def)

lemma io_bind_assoc_at [simp]:
  "io_bind (io_bind m f) g s = io_bind m (\<lambda>x. io_bind (f x) g) s"
  by (simp add: io_bind_assoc)

lemma io_catch_perform [simp]:
  "io_catch (perform ev answer) h s =
     (case answer s of Inl e \<Rightarrow> h e (s @ [ev]) | Inr x \<Rightarrow> (Inr x, s @ [ev]))"
  by (simp add: io_catch_def perform_def split: sum.splits)

lemma io_return_at [simp]: "io_return x s = (Inr x, s)"
  by (simp add: io_return_def)

lemma io_throw_at [simp]: "io_throw e s = (Inl e, s)"
  by (simp add: io_throw_def)

lemma perform_at [simp]: "perform ev answer s = (answer s, s @ [ev])"
  by (simp add: perform_def)

lemma run_until_parsed_invalid_world:
  \<open>run_until_parsed invalid_world []
     = (Inr (JsText ''{"a":1}'', ''s3cret'', True,
             ''https://client.apimetrics.io/api/2/import/schema.json''), [ReadFile ''doc.json''])\<close>
  by (simp add: run_until_parsed_def getInput_def no_options_def input_keys
        invalid_world_def demo_world_fields parseBoolean_def readFile_def loadDocument_def
        trim_def isWhiteSpace_def startsWith_def demo_documents_def endsWith_def)

lemma validateSchema_invalid_world:
  \<open>validateSchema invalid_world (JsText ''{"a":1}'')
      ''https://client.apimetrics.io/api/2/import/schema.json'' [ReadFile ''doc.json'']
     = (Inl (''Schema validation failed:'' @ newline @ ''data must have required property name''
               @ newline @ ''data/a must be string''),
        [ReadFile ''doc.json'',
         Fetch \<lparr>req_method = ''GET'',
                req_url = ''https://client.apimetrics.io/api/2/import/schema.json'',
                req_headers = [], req_body = None\<rparr>,
         Require ''ajv'', Require ''ajv-formats''])\<close>
  by (simp add: validateSchema_def fetch_get_def fetch_def ensureModule_def require_def
        io_bind_def io_catch_def io_lift_def
        invalid_world_def demo_world_fields trim_def isWhiteSpace_def startsWith_def demo_documents_def)

theorem C8_validate_before_upload_witness:
  \<open>run invalid_world []
     = (Inl (''Schema validation failed:'' @ newline @ ''data must have required property name''
               @ newline @ ''data/a must be string''),
        [ReadFile ''doc.json'',
         Fetch \<lparr>req_method = ''GET'',
                req_url = ''https://client.apimetrics.io/api/2/import/schema.json'',
                req_headers = [], req_body = None\<rparr>,
         Require ''ajv'', Require ''ajv-formats''])
    \<and> uploads [ReadFile ''doc.json'',
         Fetch \<lparr>req_method = ''GET'',
                req_url = ''https://client.apimetrics.io/api/2/import/schema.json'',
                req_headers = [], req_body = None\<rparr>,
         Require ''ajv'', Require ''ajv-formats''] = []\<close>
  using C8_validate_before_upload [OF run_until_parsed_invalid_world]
  by (simp add: validateSchema_invalid_world uploads_def is_upload_def)


section \<open>Schema Validator: the report of violations\<close>

lemma split_on_plain: "d \<notin> set h \<Longrightarrow> split_on d h = [h]"
  by (induction h) auto

lemma split_on_append: "d \<notin> set h \<Longrightarrow> split_on d (h @ d # r) = h # split_on d r"
  by (induction h) auto

lemma split_on_join:
  "\<forall>x \<in> set xs. d \<notin> set x \<Longrightarrow> xs \<noteq> [] \<Longrightarrow> split_on d (join [d] xs) = xs"
proof (induction "[d]" xs rule: join.induct)
  case 1
  then show ?case by simp
next
  case (2 x)
  then show ?case by (simp add: split_on_plain)
next
  case (3 x y ys)
  then show ?case by (simp add: split_on_append)
qed

text \<open>
  C9. The claim is that the message of a document with N violations contains N lines, one
  for each violation. As stated it fails: the message begins with a line of its own,
  \<^verbatim>\<open>Schema validation failed:\<close>, and what follows is the text that \<^verbatim>\<open>errorsText\<close> returns,
  whatever its lines are. What holds is this. Let the schema be fetched and parsed, both
  modules load and the instance be made with \<^verbatim>\<open>allErrors: true\<close> and \<^verbatim>\<open>strict: false\<close>. If the
  instance cannot compile the schema, \<^verbatim>\<open>validateSchema\<close> fails with the compiler's error. If
  the schema compiles and the compiled function rejects the document with the violations
  \<open>vs\<close>, \<^verbatim>\<open>validateSchema\<close> fails with the header line, a line feed and the text of
  \<^verbatim>\<open>errorsText\<close> for \<open>vs\<close> with the line feed as separator. If moreover \<open>vs\<close> is not empty and
  that text is the renderings of the violations joined by the separator, no rendering
  holding a line feed, then the lines of the message are the header line followed by one
  line for each violation, in the order of \<open>vs\<close>: N + 1 lines.
\<close>

theorem C9_violation_report:
  assumes fetched: "http_fetch w s \<lparr>req_method = ''GET'', req_url = schemaUrl,
                       req_headers = [], req_body = None\<rparr> = Inr response"
                   "ok response"
    and parsed: "JSON_parse w (bodyText response) = Inr schema"
    and loaded: "ensureModule w ''ajv'' ''8.12.0''
                   (s @ [Fetch \<lparr>req_method = ''GET'', req_url = schemaUrl,
                                req_headers = [], req_body = None\<rparr>]) = (Inr Ajv, s1)"
                "ensureModule w ''ajv-formats'' ''2.1.1'' s1 = (Inr addFormats, s2)"
    and made: "js_new w Ajv \<lparr>allErrors = True, strict = False\<rparr> = Inr ajv0"
              "js_call w addFormats ajv0 = Inr ajv"
  shows "(\<forall>e. ajv_compile w ajv schema = Inl e \<longrightarrow>
            validateSchema w document schemaUrl s = (Inl e, s2))
       \<and> (\<forall>validate vs.
            ajv_compile w ajv schema = Inr validate \<and> validate document = (False, vs) \<longrightarrow>
              validateSchema w document schemaUrl s =
                (Inl (''Schema validation failed:'' @ newline @ ajv_errorsText w ajv vs newline),
                 s2)
              \<and> (vs \<noteq> []
                   \<and> ajv_errorsText w ajv vs newline = join newline (map render vs)
                   \<and> (\<forall>v \<in> set vs. CHR 0x0A \<notin> set (render v)) \<longrightarrow>
                 split_on (CHR 0x0A)
                   (''Schema validation failed:'' @ newline @ ajv_errorsText w ajv vs newline)
                   = ''Schema validation failed:'' # map render vs
                 \<and> length (split_on (CHR 0x0A)
                      (''Schema validation failed:'' @ newline
                         @ ajv_errorsText w ajv vs newline)) = length vs + 1))"
proof (intro conjI allI impI)
  fix e
  assume "ajv_compile w ajv schema = Inl e"
  then show "validateSchema w document schemaUrl s = (Inl e, s2)"
    using fetched parsed loaded made
    by (simp add: validateSchema_def fetch_get_def fetch_def io_bind_def io_lift_def)
next
  fix validate vs
  assume "ajv_compile w ajv schema = Inr validate \<and> validate document = (False, vs)"
  then show "validateSchema w document schemaUrl s =
                (Inl (''Schema validation failed:'' @ newline @ ajv_errorsText w ajv vs newline),
                 s2)"
    using fetched parsed loaded made
    by (simp add: validateSchema_def fetch_get_def fetch_def io_bind_def io_lift_def)
next
  fix validate vs
  assume r: "vs \<noteq> []
             \<and> ajv_errorsText w ajv vs newline = join newline (map render vs)
             \<and> (\<forall>v \<in> set vs. CHR 0x0A \<notin> set (render v))"
  then have "split_on (CHR 0x0A) (join [CHR 0x0A] (map render vs)) = map render vs"
    by (intro split_on_join) simp_all
  then show l: "split_on (CHR 0x0A)
                  (''Schema validation failed:'' @ newline @ ajv_errorsText w ajv vs newline)
                  = ''Schema validation failed:'' # map render vs"
    using r split_on_append [of "CHR 0x0A" "''Schema validation failed:''"]
    by (simp add: newline_def)
  show "length (split_on (CHR 0x0A)
                  (''Schema validation failed:'' @ newline @ ajv_errorsText w ajv vs newline))
          = length vs + 1"
    by (simp only: l) simp
qed

theorem C9_violation_report_witness:
  \<open>validateSchema invalid_world (JsText ''{"a":1}'') ''https://example.test/schema.json'' []
     = (Inl (''Schema validation failed:'' @ newline
               @ ''data must have required property name'' @ newline
               @ ''data/a must be string''),
        [Fetch \<lparr>req_method = ''GET'', req_url = ''https://example.test/schema.json'',
                req_headers = [], req_body = None\<rparr>,
         Require ''ajv'', Require ''ajv-formats''])
   \<and> split_on (CHR 0x0A)
        (''Schema validation failed:'' @ newline
           @ ''data must have required property name'' @ newline @ ''data/a must be string'')
      = [''Schema validation failed:'', ''data must have required property name'',
         ''data/a must be string'']\<close>
proof -
  let ?get = "\<lparr>req_method = ''GET'', req_url = ''https://example.test/schema.json'',
               req_headers = [], req_body = None\<rparr>"
  let ?ajv = "JsInstance ''ajv'' \<lparr>allErrors = True, strict = False\<rparr> [''ajv-formats'']"
  let ?vs = "[JsViolation ''data must have required property name'',
              JsViolation ''data/a must be string'']"
  let ?render = "\<lambda>e. case e of JsViolation m \<Rightarrow> m | _ \<Rightarrow> ''error''"
  let ?joined = "''data must have required property name'' @ newline @ ''data/a must be string''"
  have fetched: "http_fetch invalid_world [] ?get
                   = Inr \<lparr>ok = True, status = 200, statusText = ''OK'', bodyText = ''{}''\<rparr>"
    by (simp add: invalid_world_def demo_world_fields)
  have parsed: "JSON_parse invalid_world
                  (bodyText \<lparr>ok = True, status = 200, statusText = ''OK'', bodyText = ''{}''\<rparr>)
                  = Inr (JsText ''{}'')"
    by (simp add: invalid_world_def demo_world_fields demo_documents_def)
  have loaded1: "ensureModule invalid_world ''ajv'' ''8.12.0'' ([] @ [Fetch ?get])
                   = (Inr (JsModule ''ajv''), [Fetch ?get, Require ''ajv''])"
    by (simp add: ensureModule_def require_def invalid_world_def demo_world_fields)
  have loaded2: "ensureModule invalid_world ''ajv-formats'' ''2.1.1'' [Fetch ?get, Require ''ajv'']
                   = (Inr (JsModule ''ajv-formats''),
                      [Fetch ?get, Require ''ajv'', Require ''ajv-formats''])"
    by (simp add: ensureModule_def require_def invalid_world_def demo_world_fields)
  have made1: "js_new invalid_world (JsModule ''ajv'') \<lparr>allErrors = True, strict = False\<rparr>
                 = Inr (JsInstance ''ajv'' \<lparr>allErrors = True, strict = False\<rparr> [])"
    by (simp add: invalid_world_def demo_world_fields)
  have made2: "js_call invalid_world (JsModule ''ajv-formats'')
                 (JsInstance ''ajv'' \<lparr>allErrors = True, strict = False\<rparr> []) = Inr ?ajv"
    by (simp add: invalid_world_def demo_world_fields)
  have compiled: \<open>ajv_compile invalid_world ?ajv (JsText ''{}'') = Inr (\<lambda>_. (False, ?vs))
                    \<and> (\<lambda>_. (False, ?vs)) (JsText ''{"a":1}'') = (False, ?vs)\<close>
    by (simp add: invalid_world_def)
  have joined: "ajv_errorsText invalid_world ?ajv ?vs newline = ?joined"
    by (simp add: invalid_world_def demo_world_fields)
  have rendered: "?vs \<noteq> []
                  \<and> ajv_errorsText invalid_world ?ajv ?vs newline = join newline (map ?render ?vs)
                  \<and> (\<forall>v \<in> set ?vs. CHR 0x0A \<notin> set (?render v))"
    by (simp add: invalid_world_def demo_world_fields)
  have answered: "ok \<lparr>ok = True, status = 200, statusText = ''OK'', bodyText = ''{}''\<rparr>"
    by simp
  note report = C9_violation_report [where s = "[]" and render = ?render
      and document = \<open>JsText ''{"a":1}''\<close>,
      OF fetched answered parsed loaded1 loaded2 made1 made2]
  note rejected = report [THEN conjunct2, THEN spec, THEN spec, THEN mp, OF compiled]
  have 1: \<open>validateSchema invalid_world (JsText ''{"a":1}'') ''https://example.test/schema.json'' []
            = (Inl (''Schema validation failed:'' @ newline
                      @ ajv_errorsText invalid_world ?ajv ?vs newline),
               [Fetch ?get, Require ''ajv'', Require ''ajv-formats''])\<close>
    using rejected by (rule conjunct1)
  have 2: "split_on (CHR 0x0A)
             (''Schema validation failed:'' @ newline
                @ ajv_errorsText invalid_world ?ajv ?vs newline)
           = ''Schema validation failed:'' # map ?render ?vs"
    using rejected [THEN conjunct2, THEN mp, OF rendered] by (rule conjunct1)
  from 1 2 show ?thesis by (simp add: joined)
qed

text \<open>
  The counterexample to C9 as stated. In the first world the validator reports two
  violations and the message has three lines, the first of them the header. In the second
  it reports one violation, at a property whose name holds a line feed, and the message
  has three lines again, two of them for the one violation.
\<close>

theorem C9_line_count_counterexample:
  \<open>(case ajv_compile invalid_world
            (JsInstance ''ajv'' \<lparr>allErrors = True, strict = False\<rparr> [''ajv-formats''])
            (JsText ''{}'') of
      Inl e \<Rightarrow> None
    | Inr validate \<Rightarrow> Some (validate (JsText ''{"a":1}'')))
     = Some (False, [JsViolation ''data must have required property name'',
                     JsViolation ''data/a must be string''])
   \<and> validateSchema invalid_world (JsText ''{"a":1}'') ''https://example.test/schema.json'' []
     = (Inl (''Schema validation failed:'' @ newline
               @ ''data must have required property name'' @ newline
               @ ''data/a must be string''),
        [Fetch \<lparr>req_method = ''GET'', req_url = ''https://example.test/schema.json'',
                req_headers = [], req_body = None\<rparr>,
         Require ''ajv'', Require ''ajv-formats''])
   \<and> length (split_on (CHR 0x0A)
        (''Schema validation failed:'' @ newline
           @ ''data must have required property name'' @ newline @ ''data/a must be string''))
      = 3
   \<and> (case ajv_compile linefeed_world
            (JsInstance ''ajv'' \<lparr>allErrors = True, strict = False\<rparr> [''ajv-formats''])
            (JsText ''{}'') of
      Inl e \<Rightarrow> None
    | Inr validate \<Rightarrow> Some (validate (JsText (''{"a'' @ [CHR 0x5C] @ ''nb":1}''))))
     = Some (False, [JsViolation (''data/a'' @ newline @ ''b must be string'')])
   \<and> validateSchema linefeed_world (JsText (''{"a'' @ [CHR 0x5C] @ ''nb":1}''))
        ''https://example.test/schema.json'' []
     = (Inl (''Schema validation failed:'' @ newline
               @ ''data/a'' @ newline @ ''b must be string''),
        [Fetch \<lparr>req_method = ''GET'', req_url = ''https://example.test/schema.json'',
                req_headers = [], req_body = None\<rparr>,
         Require ''ajv'', Require ''ajv-formats''])
   \<and> split_on (CHR 0x0A)
        (''Schema validation failed:'' @ newline @ ''data/a'' @ newline @ ''b must be string'')
      = [''Schema validation failed:'', ''data/a'', ''b must be string'']\<close>
  by (simp add: validateSchema_def fetch_get_def fetch_def ensureModule_def require_def
        io_bind_def io_catch_def io_lift_def invalid_world_def linefeed_world_def
        demo_world_fields demo_documents_def newline_def)


section \<open>Uploader: the destination\<close>

lemma uploadDocument_destination:
  "\<exists>r. uploadDocument w document token s =
     (r, s @ [Fetch \<lparr>req_method = ''POST'',
                      req_url = ''https://client.apimetrics.io/api/2/import'',
                      req_headers = [(''Content-Type'', ''application/json''),
                                     (''Authorization'', ''Bearer '' @ token)],
                      req_body = Some (JSON_stringify w document)\<rparr>])"
  by (simp add: uploadDocument_def fetch_def split: sum.splits)

text \<open>
  C1. The claim is that the upload goes to the URL of the \<^verbatim>\<open>endpoint\<close> input.
  \<^verbatim>\<open>uploadDocument\<close> has no such parameter and \<^verbatim>\<open>run\<close> never reads the input: with
  \<^verbatim>\<open>endpoint\<close> set to a staging URL, the document is posted to the fixed URL
  \<^verbatim>\<open>https://client.apimetrics.io/api/2/import\<close>.
\<close>

theorem C1_endpoint_input_ignored:
  \<open>run endpoint_world []
     = (Inr (),
        [ReadFile ''doc.json'',
         Fetch \<lparr>req_method = ''POST'',
                req_url = ''https://client.apimetrics.io/api/2/import'',
                req_headers = [(''Content-Type'', ''application/json''),
                               (''Authorization'', ''Bearer s3cret'')],
                req_body = Some ''{"a":1}''\<rparr>,
         ConsoleLog ''{}''])\<close>
  by (simp add: run_def getInput_def no_options_def input_keys endpoint_world_def
        demo_world_fields parseBoolean_def toLowerCase_def toLowerChar_def isUpperCase_def
        readFile_def loadDocument_def uploadDocument_def fetch_def console_log_def
        io_bind_def io_lift_def trim_def isWhiteSpace_def startsWith_def demo_documents_def endsWith_def)


section \<open>The two copies of the validator\<close>

lemma validateSchema_compiles_with:
  assumes "http_fetch w s \<lparr>req_method = ''GET'', req_url = schemaUrl,
                       req_headers = [], req_body = None\<rparr> = Inr response"
          "ok response"
          "JSON_parse w (bodyText response) = Inr schema"
          "ensureModule w ''ajv'' ''8.12.0''
             (s @ [Fetch \<lparr>req_method = ''GET'', req_url = schemaUrl,
                          req_headers = [], req_body = None\<rparr>]) = (Inr Ajv, s1)"
          "ensureModule w ''ajv-formats'' ''2.1.1'' s1 = (Inr addFormats, s2)"
          "js_new w Ajv \<lparr>allErrors = True, strict = False\<rparr> = Inr ajv0"
          "js_call w addFormats ajv0 = Inr ajv"
  shows "validateSchema w document schemaUrl s =
           (case ajv_compile w ajv schema of
              Inl e \<Rightarrow> (Inl e, s2)
            | Inr validate \<Rightarrow>
                (case validate document of
                   (True, errors) \<Rightarrow> (Inr (), s2)
                 | (False, errors) \<Rightarrow>
                     (Inl (''Schema validation failed:'' @ newline
                             @ ajv_errorsText w ajv errors newline), s2)))"
  using assms
  by (simp add: validateSchema_def fetch_get_def fetch_def io_bind_def io_lift_def
        split: sum.splits prod.splits bool.splits)

lemma dist_validateSchema_compiles_with:
  assumes "http_fetch w s \<lparr>req_method = ''GET'', req_url = schemaUrl,
                       req_headers = [], req_body = None\<rparr> = Inr response"
          "ok response"
          "JSON_parse w (bodyText response) = Inr schema"
          "ensureModule w ''ajv-draft-04'' ''1.0.0''
             (s @ [Fetch \<lparr>req_method = ''GET'', req_url = schemaUrl,
                          req_headers = [], req_body = None\<rparr>]) = (Inr AjvDraft04, s1)"
          "ensureModule w ''ajv-formats'' ''2.1.1'' s1 = (Inr addFormats, s2)"
          "js_new w AjvDraft04 \<lparr>allErrors = True, strict = False\<rparr> = Inr ajv0"
          "js_call w addFormats ajv0 = Inr ajv"
  shows "dist_validateSchema w document schemaUrl s =
           (case ajv_compile w ajv schema of
              Inl e \<Rightarrow> (Inl e, s2)
            | Inr validate \<Rightarrow>
                (case validate document of
                   (True, errors) \<Rightarrow> (Inr (), s2)
                 | (False, errors) \<Rightarrow>
                     (Inl (''Schema validation failed:'' @ newline
                             @ ajv_errorsText w ajv errors newline), s2)))"
  using assms
  by (simp add: dist_validateSchema_def fetch_get_def fetch_def io_bind_def io_lift_def
        split: sum.splits prod.splits bool.splits)

text \<open>
  C2. The claim is that the schema is compiled under Draft-04 semantics. In
  \<^verbatim>\<open>dist/index.js\<close> the validator class comes from the module \<^verbatim>\<open>ajv-draft-04\<close>; in
  \<^verbatim>\<open>src/index.js\<close> it comes from the module \<^verbatim>\<open>ajv\<close>. On a schema that declares Draft-04,
  in a world where only the class of \<^verbatim>\<open>ajv-draft-04\<close> knows that dialect, the validator of
  \<^verbatim>\<open>src/index.js\<close> fails to compile the schema and the validator of \<^verbatim>\<open>dist/index.js\<close>
  accepts the document.
\<close>

theorem C2_validator_class_of_src:
  \<open>validateSchema draft04_world (JsText ''{"a":1}'')
      ''https://client.apimetrics.io/api/2/import/schema.json'' []
     = (Inl ''no schema with key or ref "http://json-schema.org/draft-04/schema#"'',
        [Fetch \<lparr>req_method = ''GET'',
                req_url = ''https://client.apimetrics.io/api/2/import/schema.json'',
                req_headers = [], req_body = None\<rparr>,
         Require ''ajv'', Require ''ajv-formats''])
   \<and> dist_validateSchema draft04_world (JsText ''{"a":1}'')
      ''https://client.apimetrics.io/api/2/import/schema.json'' []
     = (Inr (),
        [Fetch \<lparr>req_method = ''GET'',
                req_url = ''https://client.apimetrics.io/api/2/import/schema.json'',
                req_headers = [], req_body = None\<rparr>,
         Require ''ajv-draft-04'', Require ''ajv-formats''])\<close>
  by (simp add: validateSchema_def dist_validateSchema_def fetch_get_def fetch_def
        ensureModule_def require_def io_bind_def io_catch_def io_lift_def
        draft04_world_def demo_world_fields trim_def isWhiteSpace_def startsWith_def demo_documents_def)

text \<open>
  C3. The claim is that the bundled copy behaves as the source does. In the world of C2
  the run of \<^verbatim>\<open>src/index.js\<close> fails in validation and uploads nothing, and the run of
  \<^verbatim>\<open>dist/index.js\<close> validates, uploads the document and reports the response.
\<close>

theorem C3_dist_differs_from_src:
  \<open>run draft04_world []
     = (Inl ''no schema with key or ref "http://json-schema.org/draft-04/schema#"'',
        [ReadFile ''doc.json'',
         Fetch \<lparr>req_method = ''GET'',
                req_url = ''https://client.apimetrics.io/api/2/import/schema.json'',
                req_headers = [], req_body = None\<rparr>,
         Require ''ajv'', Require ''ajv-formats''])
   \<and> dist_run draft04_world []
     = (Inr (),
        [ReadFile ''doc.json'',
         Fetch \<lparr>req_method = ''GET'',
                req_url = ''https://client.apimetrics.io/api/2/import/schema.json'',
                req_headers = [], req_body = None\<rparr>,
         Require ''ajv-draft-04'', Require ''ajv-formats'',
         Fetch \<lparr>req_method = ''POST'',
                req_url = ''https://client.apimetrics.io/api/2/import'',
                req_headers = [(''Content-Type'', ''application/json''),
                               (''Authorization'', ''Bearer s3cret'')],
                req_body = Some ''{"a":1}''\<rparr>,
         ConsoleLog ''imported''])\<close>
  by (simp add: run_def dist_run_def getInput_def no_options_def input_keys
        parseBoolean_def readFile_def loadDocument_def uploadDocument_def console_log_def
        validateSchema_def dist_validateSchema_def fetch_get_def fetch_def
        ensureModule_def require_def io_bind_def io_catch_def io_lift_def
        draft04_world_def demo_world_fields trim_def isWhiteSpace_def startsWith_def demo_documents_def
        endsWith_def)

text \<open>With validation switched off the two copies do the same.\<close>

lemma dist_run_without_validation:
  assumes "\<not> parseBoolean (case env w ''INPUT_VALIDATE_SCHEMA'' of None \<Rightarrow> [] | Some v \<Rightarrow> v) True"
  shows "dist_run w s = run w s"
  using assms
  by (cases "getInput w ''token'' \<lparr>required = True\<rparr>")
     (simp_all add: run_def dist_run_def getInput_optional input_keys)

end
